theory Spec2Isabelle
  imports Main "HOL-Library.Sublist"
begin

section \<open>Strings\<close>

text \<open>
  A Python \<^verbatim>\<open>str\<close> is a sequence of Unicode code points, so a text is a list of
  natural numbers. String constants of the program are written as character strings and
  turned into code points by \<open>py\<close>.
\<close>

type_synonym pystr = "nat list"

definition py :: "string \<Rightarrow> pystr" where
  "py cs = map of_char cs"

text \<open>
  Python's strict UTF-8 codec encodes every code point up to \<open>0x10FFFF\<close> except the
  surrogates \<open>0xD800 .. 0xDFFF\<close>.
\<close>

definition utf8_representable :: "pystr \<Rightarrow> bool" where
  "utf8_representable t = list_all (\<lambda>c. c < 0xD800 \<or> (0xDFFF < c \<and> c \<le> 0x10FFFF)) t"

section \<open>Configuration and themes\<close>

record AppConfig =
  default_width :: int
  default_height :: int
  window_title :: pystr
  editor_font_family :: pystr
  editor_font_size :: int

definition AppConfig_defaults :: AppConfig where
  "AppConfig_defaults =
     \<lparr>default_width = 1200, default_height = 800,
      window_title = py ''Joe's Markdown Viewer'',
      editor_font_family = py ''Menlo'', editor_font_size = 14\<rparr>"

record Theme =
  pygments_css :: pystr
  html_css :: pystr
  app_stylesheet :: pystr

definition light_html_css :: pystr where
  \<open>light_html_css = py
    (''\<newline>'' @
     ''            body {\<newline>'' @
     ''                font-family: -apple-system, BlinkMacSystemFont, "Segoe UI", "Noto Sans", Helvetica, Arial, sans-serif;\<newline>'' @
     ''                line-height: 1.6; background-color: #ffffff; color: #24292e; padding: 10px;\<newline>'' @
     ''            }\<newline>'' @
     ''            h1, h2, h3, h4, h5, h6 { border-bottom: 1px solid #eaecef; color: #24292e; }\<newline>'' @
     ''            a { color: #0366d6; }\<newline>'' @
     ''            code { background-color: rgba(27,31,35,.05); }\<newline>'' @
     ''            blockquote { color: #6a737d; border-left: .25em solid #dfe2e5; }\<newline>'' @
     ''            body > table th, body > table td { border: 1px solid #dfe2e5; }\<newline>'' @
     ''            body > table tr { background-color: #fff; border-top: 1px solid #c6cbd1; }\<newline>'' @
     ''            body > table tr:nth-child(2n) { background-color: #f6f8fa; }\<newline>'' @
     ''            hr { background-color: #e1e4e8; }\<newline>'' @
     ''        '')\<close>

definition light_app_stylesheet :: pystr where
  \<open>light_app_stylesheet = py
    (''\<newline>'' @
     ''            QMainWindow, QMenuBar, QMenu { background-color: #f6f8fa; color: #24292e; }\<newline>'' @
     ''            QMenuBar::item:selected, QMenu::item:selected { background-color: #e1e4e8; }\<newline>'' @
     ''            QTextEdit { background-color: #ffffff; color: #24292e; border: 1px solid #d1d5da; selection-background-color: #0366d6; selection-color: #ffffff; }\<newline>'' @
     ''            QSplitter::handle { background-color: #e1e4e8; }\<newline>'' @
     ''            QScrollBar::handle { background: #d1d5da; }\<newline>'' @
     ''        '')\<close>

definition dark_html_css :: pystr where
  \<open>dark_html_css = py
    (''\<newline>'' @
     ''            body {\<newline>'' @
     ''                font-family: -apple-system, BlinkMacSystemFont, "Segoe UI", "Noto Sans", Helvetica, Arial, sans-serif;\<newline>'' @
     ''                line-height: 1.6; background-color: #2b2b2b; color: #f0f0f0; padding: 10px;\<newline>'' @
     ''            }\<newline>'' @
     ''            h1, h2, h3, h4, h5, h6 { border-bottom: 1px solid #444; color: #f0f0f0; }\<newline>'' @
     ''            a { color: #61afef; }\<newline>'' @
     ''            code { background-color: #3c3c3c; }\<newline>'' @
     ''            blockquote { color: #999; border-left: .25em solid #555; }\<newline>'' @
     ''            body > table th, body > table td { border: 1px solid #444; }\<newline>'' @
     ''            body > table tr { background-color: #2b2b2b; border-top: 1px solid #444; }\<newline>'' @
     ''            body > table tr:nth-child(2n) { background-color: #313131; }\<newline>'' @
     ''            hr { background-color: #444; }\<newline>'' @
     ''        '')\<close>

definition dark_app_stylesheet :: pystr where
  \<open>dark_app_stylesheet = py
    (''\<newline>'' @
     ''            QMainWindow, QWidget { background-color: #2b2b2b; color: #f0f0f0; }\<newline>'' @
     ''            QMenuBar, QMenu { background-color: #3c3c3c; color: #f0f0f0; }\<newline>'' @
     ''            QMenuBar::item:selected, QMenu::item:selected { background-color: #555; }\<newline>'' @
     ''            QTextEdit { background-color: #2b2b2b; color: #f8f8f2; border: 1px solid #444; selection-background-color: #4a4a4a; }\<newline>'' @
     ''            QSplitter::handle { background-color: #3c3c3c; }\<newline>'' @
     ''            QScrollBar::handle { background: #555; }\<newline>'' @
     ''        '')\<close>

text \<open>
  \<^verbatim>\<open>HtmlFormatter\<close> is an optional import: \<open>None\<close> when Pygments is missing,
  otherwise the function from a style name and a CSS selector to that style's rules
  (\<^verbatim>\<open>HtmlFormatter(style=...).get_style_defs(selector)\<close>).
\<close>

type_synonym html_formatter = "(pystr \<Rightarrow> pystr \<Rightarrow> pystr) option"

definition create_themes :: "html_formatter \<Rightarrow> Theme \<times> Theme" where
  "create_themes HtmlFormatter =
     (let light_pygments_css =
            (case HtmlFormatter of
               Some get_style_defs \<Rightarrow> get_style_defs (py ''default'') (py ''.codehilite'')
             | None \<Rightarrow> []);
          dark_pygments_css =
            (case HtmlFormatter of
               Some get_style_defs \<Rightarrow> get_style_defs (py ''monokai'') (py ''.codehilite'')
             | None \<Rightarrow> [])
      in (\<lparr>pygments_css = light_pygments_css, html_css = light_html_css,
            app_stylesheet = light_app_stylesheet\<rparr>,
          \<lparr>pygments_css = dark_pygments_css, html_css = dark_html_css,
            app_stylesheet = dark_app_stylesheet\<rparr>))"

section \<open>The world outside the window\<close>

text \<open>
  The two \<^verbatim>\<open>with open(path, mode, encoding="utf-8")\<close> statements are the program's
  only file access. A file holds a text, or bytes that are not UTF-8. Opening may raise
  for reasons of the platform (permissions, a directory in place of a file, a missing
  parent directory): \<open>read_fault\<close> and \<open>write_fault\<close> give the exception raised for
  a path, if any; the empty path names no file. Text files are taken to return the text
  that was written: the editor widget hands out line feeds only, on which the newline
  translation of text mode is the identity.
\<close>

datatype py_exception =
    FileNotFoundError
  | PermissionError
  | IsADirectoryError
  | OSError
  | UnicodeDecodeError
  | UnicodeEncodeError

datatype filedata = Utf8Text pystr | InvalidUtf8

record filesystem =
  files :: "pystr \<rightharpoonup> filedata"
  read_fault :: "pystr \<rightharpoonup> py_exception"
  write_fault :: "pystr \<rightharpoonup> py_exception"

text \<open>\<^verbatim>\<open>with open(p, "r", encoding="utf-8") as f: f.read()\<close>\<close>

definition read_text :: "filesystem \<Rightarrow> pystr \<Rightarrow> py_exception + pystr" where
  "read_text fsys p =
     (if p = [] then Inl FileNotFoundError
      else
        (case read_fault fsys p of
           Some e \<Rightarrow> Inl e
         | None \<Rightarrow>
             (case files fsys p of
                None \<Rightarrow> Inl FileNotFoundError
              | Some InvalidUtf8 \<Rightarrow> Inl UnicodeDecodeError
              | Some (Utf8Text t) \<Rightarrow> Inr t)))"

text \<open>
  \<^verbatim>\<open>with open(p, "w", encoding="utf-8") as f: f.write(t)\<close>: the exception raised, if
  any, and the file system afterwards. Opening for writing truncates the file, so a text
  the codec refuses leaves an empty file behind.
\<close>

definition write_text :: "filesystem \<Rightarrow> pystr \<Rightarrow> pystr \<Rightarrow> py_exception option \<times> filesystem" where
  "write_text fsys p t =
     (if p = [] then (Some FileNotFoundError, fsys)
      else
        (case write_fault fsys p of
           Some e \<Rightarrow> (Some e, fsys)
         | None \<Rightarrow>
             if utf8_representable t
             then (None, fsys\<lparr>files := (files fsys)(p \<mapsto> Utf8Text t)\<rparr>)
             else (Some UnicodeEncodeError, fsys\<lparr>files := (files fsys)(p \<mapsto> Utf8Text [])\<rparr>)))"

text \<open>
  What the user and the platform see of a handler, in order: the file dialogs with the
  path they returned (empty when cancelled), the files opened, and the error boxes with
  their title, the constant part of the message and the exception formatted after it.
\<close>

datatype effect =
    GetOpenFileName pystr
  | GetSaveFileName pystr
  | OpenForReading pystr
  | OpenForWriting pystr pystr
  | MessageBoxCritical pystr pystr py_exception

section \<open>The viewer\<close>

text \<open>
  The fields of \<^verbatim>\<open>MarkdownViewer\<close> and the properties of its widgets that the
  handlers read or write: the plain text of the editor, the HTML of the preview, the
  style sheet and title of the window, the check mark of the dark-mode action. The
  editor is its plain text: \<^verbatim>\<open>setPlainText\<close> stores a text and
  \<^verbatim>\<open>toPlainText\<close> returns it. The Markdown converter is an object of the
  \<^verbatim>\<open>markdown2\<close> library that is created once and reused: its state is a field, and
  \<^verbatim>\<open>convert\<close> is a function from the state and a text to the HTML fragment and the
  next state. A conversion that raises is not modelled. The last two fields are the
  files on disk and the effects so far.
\<close>

type_synonym 'c converter = "'c \<Rightarrow> pystr \<Rightarrow> pystr \<times> 'c"

record 'c MarkdownViewer =
  config :: AppConfig
  current_file_path :: "pystr option"
  is_dark_mode :: bool
  markdown_converter :: 'c
  light_theme :: Theme
  dark_theme :: Theme
  editor :: pystr
  preview :: pystr
  styleSheet :: pystr
  windowTitle :: pystr
  dark_mode_action :: bool
  fs :: filesystem
  trace :: "effect list"

definition placeholder :: pystr where
  \<open>placeholder = py
    (''```python\<newline>'' @
     ''# Type your markdown here!\<newline>'' @
     ''# Syntax highlighting is now active.\<newline>'' @
     ''def hello(name):\<newline>'' @
     ''    print(f'Hello, {name}!')\<newline>'' @
     ''\<newline>'' @
     ''hello('World')\<newline>'' @
     ''```\<newline>'' @
     ''\<newline>'' @
     ''| Header 1 | Header 2 |\<newline>'' @
     ''|----------|----------|\<newline>'' @
     ''| Cell 1   | Cell 2   |\<newline>'' @
     ''\<newline>'' @
     ''- Tables\<newline>'' @
     ''- ~~Strike-through~~\<newline>'' @
     ''- And more!\<newline>'')\<close>

definition template_shared :: pystr where
  \<open>template_shared = py
    (''\<newline>'' @
     ''        <html>\<newline>'' @
     ''        <head>\<newline>'' @
     ''            <style>\<newline>'' @
     ''                /* Shared Styles */\<newline>'' @
     ''                h1, h2, h3, h4, h5, h6 {\<newline>'' @
     ''                    font-weight: 600; line-height: 1.25; padding-bottom: .3em;\<newline>'' @
     ''                }\<newline>'' @
     ''                a:hover { text-decoration: underline; }\<newline>'' @
     ''                code {\<newline>'' @
     ''                    padding: .2em .4em; margin: 0;\<newline>'' @
     ''                    font-family: "SFMono-Regular", Consolas, "Liberation Mono", Menlo, Courier, monospace;\<newline>'' @
     ''                    font-size: 85%; border-radius: 6px;\<newline>'' @
     ''                }\<newline>'' @
     ''                .codehilite { border-radius: 6px; }\<newline>'' @
     ''                blockquote { padding: 0 1em; margin-left: 0; }\<newline>'' @
     ''                body > table {\<newline>'' @
     ''                    border-collapse: collapse; margin: 1rem 0; display: block;\<newline>'' @
     ''                    width: 100%; overflow: auto;\<newline>'' @
     ''                }\<newline>'' @
     ''                hr { border: 0; height: .25em; padding: 0; margin: 24px 0; }\<newline>'' @
     ''                ul, ol { padding-left: 2em; }\<newline>'' @
     ''\<newline>'' @
     ''                /* Theme-specific styles */\<newline>'' @
     ''                '')\<close>

definition template_between_css :: pystr where
  \<open>template_between_css = py
    (''\<newline>'' @
     ''                '')\<close>

definition template_body_open :: pystr where
  \<open>template_body_open = py
    (''\<newline>'' @
     ''            </style>\<newline>'' @
     ''        </head>\<newline>'' @
     ''        <body>\<newline>'' @
     ''            '')\<close>

definition template_close :: pystr where
  \<open>template_close = py
    (''\<newline>'' @
     ''        </body>\<newline>'' @
     ''        </html>\<newline>'' @
     ''        '')\<close>

text \<open>The f-string of \<^verbatim>\<open>_update_preview\<close>.\<close>

definition styled_html :: "pystr \<Rightarrow> Theme \<Rightarrow> pystr" where
  "styled_html html_output theme =
     template_shared @ pygments_css theme @ template_between_css @ html_css theme @
     template_body_open @ html_output @ template_close"

definition active_theme :: "'c MarkdownViewer \<Rightarrow> Theme" where
  "active_theme s = (if is_dark_mode s then dark_theme s else light_theme s)"

definition update_preview :: "'c converter \<Rightarrow> 'c MarkdownViewer \<Rightarrow> 'c MarkdownViewer" where
  "update_preview convert s =
     (let markdown_text = editor s;
          (html_output, c) = convert (markdown_converter s) markdown_text;
          theme = (if is_dark_mode s then dark_theme s else light_theme s)
      in s\<lparr>markdown_converter := c, preview := styled_html html_output theme\<rparr>)"

text \<open>
  The preview render of the specification: the first two steps of
  \<^verbatim>\<open>_update_preview\<close>, from a converter state \<open>c\<close>.
\<close>

definition render :: "'c converter \<Rightarrow> 'c \<Rightarrow> pystr \<Rightarrow> Theme \<Rightarrow> pystr" where
  "render convert c markdown_text theme = styled_html (fst (convert c markdown_text)) theme"

definition apply_theme :: "'c converter \<Rightarrow> 'c MarkdownViewer \<Rightarrow> 'c MarkdownViewer" where
  "apply_theme convert s =
     (let theme = (if is_dark_mode s then dark_theme s else light_theme s)
      in update_preview convert (s\<lparr>styleSheet := app_stylesheet theme\<rparr>))"

definition toggle_dark_mode :: "'c converter \<Rightarrow> 'c MarkdownViewer \<Rightarrow> 'c MarkdownViewer" where
  "toggle_dark_mode convert s =
     (let s1 = s\<lparr>is_dark_mode := \<not> is_dark_mode s\<rparr>;
          s2 = s1\<lparr>dark_mode_action := is_dark_mode s1\<rparr>
      in apply_theme convert s2)"

text \<open>
  \<^verbatim>\<open>editor.textChanged\<close> is connected to \<^verbatim>\<open>_update_preview\<close>: every change of
  the editor's text, by the user or by \<^verbatim>\<open>setPlainText\<close>, runs it.
\<close>

definition setPlainText :: "'c converter \<Rightarrow> 'c MarkdownViewer \<Rightarrow> pystr \<Rightarrow> 'c MarkdownViewer" where
  "setPlainText convert s t = update_preview convert (s\<lparr>editor := t\<rparr>)"

definition update_window_title :: "'c MarkdownViewer \<Rightarrow> 'c MarkdownViewer" where
  "update_window_title s =
     (let title = window_title (config s);
          title = (case current_file_path s of
                     None \<Rightarrow> title
                   | Some p \<Rightarrow> if p \<noteq> [] then p @ py '' - '' @ title else title)
      in s\<lparr>windowTitle := title\<rparr>)"

definition emit :: "effect \<Rightarrow> 'c MarkdownViewer \<Rightarrow> 'c MarkdownViewer" where
  "emit e s = s\<lparr>trace := trace s @ [e]\<rparr>"

text \<open>
  \<^verbatim>\<open>_open_file\<close>; \<open>file_path\<close> is what the open dialog returns. The
  \<^verbatim>\<open>except Exception\<close> clause takes every exception of the \<^verbatim>\<open>try\<close> block.
\<close>

definition open_file :: "'c converter \<Rightarrow> 'c MarkdownViewer \<Rightarrow> pystr \<Rightarrow> 'c MarkdownViewer" where
  "open_file convert s file_path =
     (let s = emit (GetOpenFileName file_path) s in
      if file_path \<noteq> [] then
        (case read_text (fs s) file_path of
           Inr text \<Rightarrow>
             (let s = emit (OpenForReading file_path) s;
                  s = setPlainText convert s text;
                  s = s\<lparr>current_file_path := Some file_path\<rparr>
              in update_window_title s)
         | Inl e \<Rightarrow>
             (let s = emit (OpenForReading file_path) s
              in emit (MessageBoxCritical (py ''Error'') (py ''Could not open file: '') e) s))
      else s)"

text \<open>\<^verbatim>\<open>_save_logic\<close>\<close>

definition save_logic :: "'c MarkdownViewer \<Rightarrow> pystr \<Rightarrow> 'c MarkdownViewer" where
  "save_logic s file_path =
     (case write_text (fs s) file_path (editor s) of
        (None, fsys) \<Rightarrow>
          (let s = emit (OpenForWriting file_path (editor s)) (s\<lparr>fs := fsys\<rparr>);
               s = s\<lparr>current_file_path := Some file_path\<rparr>
           in update_window_title s)
      | (Some e, fsys) \<Rightarrow>
          (let s = emit (OpenForWriting file_path (editor s)) (s\<lparr>fs := fsys\<rparr>)
           in emit (MessageBoxCritical (py ''Error'') (py ''Could not save file: '') e) s))"

text \<open>\<^verbatim>\<open>_save_file_as\<close>; \<open>file_path\<close> is what the save dialog returns.\<close>

definition save_file_as :: "'c MarkdownViewer \<Rightarrow> pystr \<Rightarrow> 'c MarkdownViewer" where
  "save_file_as s file_path =
     (let s = emit (GetSaveFileName file_path) s in
      if file_path \<noteq> [] then save_logic s file_path else s)"

text \<open>
  \<^verbatim>\<open>_save_file\<close>; \<open>dialog_path\<close> is what the save dialog would return, should the
  handler come to open it.
\<close>

definition save_file :: "'c MarkdownViewer \<Rightarrow> pystr \<Rightarrow> 'c MarkdownViewer" where
  "save_file s dialog_path =
     (case current_file_path s of
        Some p \<Rightarrow> if p \<noteq> [] then save_logic s p else save_file_as s dialog_path
      | None \<Rightarrow> save_file_as s dialog_path)"

section \<open>Start-up and events\<close>

text \<open>
  \<^verbatim>\<open>MarkdownViewer.__init__\<close>: the fields, the themes, the widgets (an empty editor
  and an empty preview), the dark-mode action checked as the flag says, then
  \<^verbatim>\<open>_apply_theme\<close>, the placeholder document and the window title. \<open>c0\<close> is the
  state of the freshly made converter, \<open>fsys\<close> the files on disk at launch.
\<close>

definition init :: "'c converter \<Rightarrow> html_formatter \<Rightarrow> 'c \<Rightarrow> AppConfig \<Rightarrow> filesystem \<Rightarrow> 'c MarkdownViewer" where
  "init convert HtmlFormatter c0 cfg fsys =
     (let (light, dark) = create_themes HtmlFormatter;
          s = \<lparr>config = cfg, current_file_path = None, is_dark_mode = True,
               markdown_converter = c0, light_theme = light, dark_theme = dark,
               editor = [], preview = [], styleSheet = [], windowTitle = [],
               dark_mode_action = True, fs = fsys, trace = []\<rparr>;
          s = apply_theme convert s;
          s = setPlainText convert s placeholder
      in update_window_title s)"

text \<open>
  What the user can do: change the editor's text (\<^verbatim>\<open>textChanged\<close> fires), trigger
  the dark-mode action, and trigger Open, Save and Save As, each with the path the file
  dialog returns.
\<close>

datatype event =
    TextEdited pystr
  | DarkModeTriggered
  | OpenTriggered pystr
  | SaveTriggered pystr
  | SaveAsTriggered pystr

fun step :: "'c converter \<Rightarrow> 'c MarkdownViewer \<Rightarrow> event \<Rightarrow> 'c MarkdownViewer" where
  "step convert s (TextEdited t) = update_preview convert (s\<lparr>editor := t\<rparr>)"
| "step convert s DarkModeTriggered = toggle_dark_mode convert s"
| "step convert s (OpenTriggered file_path) = open_file convert s file_path"
| "step convert s (SaveTriggered dialog_path) = save_file s dialog_path"
| "step convert s (SaveAsTriggered file_path) = save_file_as s file_path"

text \<open>The states of a running window.\<close>

inductive reachable :: "'c converter \<Rightarrow> html_formatter \<Rightarrow> 'c MarkdownViewer \<Rightarrow> bool"
  for convert :: "'c converter" and HtmlFormatter :: html_formatter where
  start: "reachable convert HtmlFormatter (init convert HtmlFormatter c0 cfg fsys)"
| event: "reachable convert HtmlFormatter s \<Longrightarrow> reachable convert HtmlFormatter (step convert s ev)"

section \<open>Properties of states and converters\<close>

text \<open>
  The fragment a converter returns for a text does not depend on what the instance
  converted before. This is \<^verbatim>\<open>markdown2\<close>'s side of deterministic rendering: the
  library is not part of the program, and the theorems that need it assume it.
\<close>

definition fragment_stateless :: "'c converter \<Rightarrow> bool" where
  "fragment_stateless convert = (\<forall>c c' t. fst (convert c t) = fst (convert c' t))"

text \<open>
  The themes are the two that \<^verbatim>\<open>_create_themes\<close> built, the preview shows the
  editor's text rendered with the active theme, the window wears the active theme's
  style sheet, and the menu's check mark agrees with the flag.
\<close>

definition viewer_invariant :: "'c converter \<Rightarrow> html_formatter \<Rightarrow> 'c MarkdownViewer \<Rightarrow> bool" where
  "viewer_invariant convert HtmlFormatter s =
     ((light_theme s, dark_theme s) = create_themes HtmlFormatter \<and>
      preview s = render convert (markdown_converter s) (editor s) (active_theme s) \<and>
      styleSheet s = app_stylesheet (active_theme s) \<and>
      dark_mode_action s = is_dark_mode s)"

text \<open>
  A small converter for concrete instances: it wraps the text in a paragraph and counts
  its calls, so its state changes with every conversion while its fragments do not
  depend on the state.
\<close>

definition counting_converter :: "nat converter" where
  "counting_converter n t = (py ''<p>'' @ t @ py ''</p>'', Suc n)"

text \<open>
  Concrete inputs for the instances below: a disk with no files, a disk on which one path
  cannot be written, the window as it starts over the empty disk with Pygments missing,
  and a text with code points outside ASCII.
\<close>

definition empty_disk :: filesystem where
  "empty_disk = \<lparr>files = Map.empty, read_fault = Map.empty, write_fault = Map.empty\<rparr>"

definition locked_disk :: filesystem where
  "locked_disk = empty_disk\<lparr>write_fault := [py ''/etc/notes.md'' \<mapsto> PermissionError]\<rparr>"

definition fresh_viewer :: "nat MarkdownViewer" where
  "fresh_viewer = init counting_converter None 0 AppConfig_defaults empty_disk"

definition accented :: pystr where
  "accented = [0x63, 0x61, 0x66, 0xE9, 0x20, 0x4E2D, 0x20, 0x1F600, 0x0A]"

section \<open>What each handler changes\<close>

lemma update_preview_eq:
  "update_preview convert s =
     s\<lparr>markdown_converter := snd (convert (markdown_converter s) (editor s)),
       preview := render convert (markdown_converter s) (editor s) (active_theme s)\<rparr>"
  by (simp add: update_preview_def render_def active_theme_def split: prod.splits)

lemma apply_theme_eq:
  "apply_theme convert s =
     s\<lparr>styleSheet := app_stylesheet (active_theme s),
       markdown_converter := snd (convert (markdown_converter s) (editor s)),
       preview := render convert (markdown_converter s) (editor s) (active_theme s)\<rparr>"
  by (simp add: apply_theme_def update_preview_eq active_theme_def)

lemma toggle_dark_mode_eq:
  "toggle_dark_mode convert s =
     s\<lparr>is_dark_mode := \<not> is_dark_mode s,
       dark_mode_action := \<not> is_dark_mode s,
       styleSheet := app_stylesheet (if is_dark_mode s then light_theme s else dark_theme s),
       markdown_converter := snd (convert (markdown_converter s) (editor s)),
       preview := render convert (markdown_converter s) (editor s)
                    (if is_dark_mode s then light_theme s else dark_theme s)\<rparr>"
  by (simp add: toggle_dark_mode_def apply_theme_eq active_theme_def)

lemma setPlainText_eq:
  "setPlainText convert s t =
     s\<lparr>editor := t,
       markdown_converter := snd (convert (markdown_converter s) t),
       preview := render convert (markdown_converter s) t (active_theme s)\<rparr>"
  by (simp add: setPlainText_def update_preview_eq active_theme_def)

lemma render_stateless:
  "fragment_stateless convert \<Longrightarrow> render convert c t theme = render convert c' t theme"
  unfolding fragment_stateless_def render_def by metis

lemma save_logic_frame:
  "editor (save_logic s p) = editor s \<and> preview (save_logic s p) = preview s \<and>
   styleSheet (save_logic s p) = styleSheet s \<and> is_dark_mode (save_logic s p) = is_dark_mode s \<and>
   dark_mode_action (save_logic s p) = dark_mode_action s \<and>
   markdown_converter (save_logic s p) = markdown_converter s \<and>
   light_theme (save_logic s p) = light_theme s \<and> dark_theme (save_logic s p) = dark_theme s"
  by (simp add: save_logic_def emit_def update_window_title_def Let_def split: prod.splits option.splits)

lemma save_file_as_frame:
  "editor (save_file_as s p) = editor s \<and> preview (save_file_as s p) = preview s \<and>
   styleSheet (save_file_as s p) = styleSheet s \<and> is_dark_mode (save_file_as s p) = is_dark_mode s \<and>
   dark_mode_action (save_file_as s p) = dark_mode_action s \<and>
   markdown_converter (save_file_as s p) = markdown_converter s \<and>
   light_theme (save_file_as s p) = light_theme s \<and> dark_theme (save_file_as s p) = dark_theme s"
  using save_logic_frame [of "emit (GetSaveFileName p) s" p]
  by (simp add: save_file_as_def Let_def emit_def)

lemma save_file_frame:
  "editor (save_file s p) = editor s \<and> preview (save_file s p) = preview s \<and>
   styleSheet (save_file s p) = styleSheet s \<and> is_dark_mode (save_file s p) = is_dark_mode s \<and>
   dark_mode_action (save_file s p) = dark_mode_action s \<and>
   markdown_converter (save_file s p) = markdown_converter s \<and>
   light_theme (save_file s p) = light_theme s \<and> dark_theme (save_file s p) = dark_theme s"
proof (cases "current_file_path s")
  case None
  then show ?thesis using save_file_as_frame [of s p] by (simp add: save_file_def)
next
  case (Some q)
  then show ?thesis
    using save_file_as_frame [of s p] save_logic_frame [of s q]
    by (cases "q = []") (simp_all add: save_file_def)
qed

lemma invariant_frame:
  assumes "viewer_invariant convert hf s"
    and "editor s' = editor s" "preview s' = preview s" "styleSheet s' = styleSheet s"
    and "is_dark_mode s' = is_dark_mode s" "dark_mode_action s' = dark_mode_action s"
    and "markdown_converter s' = markdown_converter s"
    and "light_theme s' = light_theme s" "dark_theme s' = dark_theme s"
  shows "viewer_invariant convert hf s'"
  using assms by (simp add: viewer_invariant_def active_theme_def)

lemma invariant_update_preview:
  assumes "fragment_stateless convert"
    and "(light_theme s, dark_theme s) = create_themes hf"
    and "styleSheet s = app_stylesheet (active_theme s)"
    and "dark_mode_action s = is_dark_mode s"
  shows "viewer_invariant convert hf (update_preview convert s)"
  using assms render_stateless [OF assms(1)]
  by (simp add: viewer_invariant_def update_preview_eq active_theme_def)

lemma invariant_toggle:
  assumes "fragment_stateless convert" and "(light_theme s, dark_theme s) = create_themes hf"
  shows "viewer_invariant convert hf (toggle_dark_mode convert s)"
  using assms render_stateless [OF assms(1)]
  by (simp add: viewer_invariant_def toggle_dark_mode_eq active_theme_def)

lemma invariant_open_file:
  assumes "fragment_stateless convert" and "viewer_invariant convert hf s"
  shows "viewer_invariant convert hf (open_file convert s p)"
  using assms render_stateless [OF assms(1)]
  by (simp add: viewer_invariant_def open_file_def emit_def Let_def setPlainText_eq
      update_window_title_def active_theme_def split: sum.splits)

lemma invariant_step:
  assumes "fragment_stateless convert" and "viewer_invariant convert hf s"
  shows "viewer_invariant convert hf (step convert s ev)"
proof (cases ev)
  case (TextEdited t)
  have "viewer_invariant convert hf (update_preview convert (s\<lparr>editor := t\<rparr>))"
    using assms by (intro invariant_update_preview) (simp_all add: viewer_invariant_def active_theme_def)
  then show ?thesis using TextEdited by simp
next
  case DarkModeTriggered
  have "(light_theme s, dark_theme s) = create_themes hf"
    using assms(2) by (simp add: viewer_invariant_def)
  then have "viewer_invariant convert hf (toggle_dark_mode convert s)"
    using assms(1) by (rule invariant_toggle [rotated])
  then show ?thesis using DarkModeTriggered by simp
next
  case (OpenTriggered p)
  then show ?thesis using assms invariant_open_file by simp
next
  case (SaveTriggered p)
  then show ?thesis using invariant_frame [OF assms(2)] save_file_frame [of s p] by simp
next
  case (SaveAsTriggered p)
  then show ?thesis using invariant_frame [OF assms(2)] save_file_as_frame [of s p] by simp
qed

lemma invariant_init:
  assumes "fragment_stateless convert"
  shows "viewer_invariant convert hf (init convert hf c0 cfg fsys)"
  using render_stateless [OF assms]
  by (simp add: init_def viewer_invariant_def apply_theme_eq setPlainText_eq
      update_window_title_def active_theme_def Let_def split: prod.splits)

lemma reachable_invariant:
  assumes "fragment_stateless convert" and "reachable convert hf s"
  shows "viewer_invariant convert hf s"
  using assms(2) by (induction rule: reachable.induct) (simp_all add: invariant_init invariant_step assms(1))

lemma themes_differ: "fst (create_themes hf) \<noteq> snd (create_themes hf)"
proof -
  have "length light_html_css \<noteq> length dark_html_css"
    by (simp add: light_html_css_def dark_html_css_def py_def)
  then have "light_html_css \<noteq> dark_html_css" by auto
  then show ?thesis by (simp add: create_themes_def Let_def)
qed

lemma counting_converter_stateless: "fragment_stateless counting_converter"
  by (simp add: fragment_stateless_def counting_converter_def)

lemma init_eq:
  "init convert hf c0 cfg fsys =
     \<lparr>config = cfg, current_file_path = None, is_dark_mode = True,
      markdown_converter = snd (convert (snd (convert c0 [])) placeholder),
      light_theme = fst (create_themes hf), dark_theme = snd (create_themes hf),
      editor = placeholder,
      preview = render convert (snd (convert c0 [])) placeholder (snd (create_themes hf)),
      styleSheet = app_stylesheet (snd (create_themes hf)),
      windowTitle = window_title cfg,
      dark_mode_action = True, fs = fsys, trace = []\<rparr>"
  by (simp add: init_def apply_theme_eq setPlainText_eq update_window_title_def
      active_theme_def Let_def split: prod.splits)

lemma fresh_viewer_eq:
  "fresh_viewer =
     \<lparr>config = AppConfig_defaults, current_file_path = None, is_dark_mode = True,
      markdown_converter = 2,
      light_theme = fst (create_themes None), dark_theme = snd (create_themes None),
      editor = placeholder,
      preview = render counting_converter 1 placeholder (snd (create_themes None)),
      styleSheet = app_stylesheet (snd (create_themes None)),
      windowTitle = window_title AppConfig_defaults,
      dark_mode_action = True, fs = empty_disk, trace = []\<rparr>"
  by (simp add: fresh_viewer_def init_eq counting_converter_def)

lemma save_logic_ok:
  assumes "fst (write_text (fs s) p (editor s)) = None"
  shows "save_logic s p =
     s\<lparr>fs := snd (write_text (fs s) p (editor s)),
       trace := trace s @ [OpenForWriting p (editor s)],
       current_file_path := Some p,
       windowTitle := (if p \<noteq> [] then p @ py '' - '' @ window_title (config s)
                       else window_title (config s))\<rparr>"
proof -
  obtain fsys where "write_text (fs s) p (editor s) = (None, fsys)"
    using assms by (cases "write_text (fs s) p (editor s)") simp
  then show ?thesis
    by (simp add: save_logic_def emit_def update_window_title_def Let_def)
qed

lemma save_logic_raises:
  assumes "fst (write_text (fs s) p (editor s)) = Some e"
  shows "save_logic s p =
     s\<lparr>fs := snd (write_text (fs s) p (editor s)),
       trace := trace s @ [OpenForWriting p (editor s),
                  MessageBoxCritical (py ''Error'') (py ''Could not save file: '') e]\<rparr>"
proof -
  obtain fsys where "write_text (fs s) p (editor s) = (Some e, fsys)"
    using assms by (cases "write_text (fs s) p (editor s)") simp
  then show ?thesis
    by (simp add: save_logic_def emit_def Let_def)
qed

lemma save_file_as_chosen:
  "p \<noteq> [] \<Longrightarrow> save_file_as s p = save_logic (emit (GetSaveFileName p) s) p"
  by (simp add: save_file_as_def Let_def)

lemma write_text_ok:
  assumes "utf8_representable t" and "p \<noteq> []" and "write_fault fsys p = None"
  shows "write_text fsys p t = (None, fsys\<lparr>files := (files fsys)(p \<mapsto> Utf8Text t)\<rparr>)"
  using assms by (simp add: write_text_def)

lemma write_text_None_stores:
  assumes "fst (write_text fsys p t) = None"
  shows "files (snd (write_text fsys p t)) p = Some (Utf8Text t)"
  using assms by (simp add: write_text_def split: if_splits option.splits)

lemma save_file_as_ok:
  assumes "utf8_representable (editor s)" and "p \<noteq> []" and "write_fault (fs s) p = None"
  shows "save_file_as s p =
     s\<lparr>fs := (fs s)\<lparr>files := (files (fs s))(p \<mapsto> Utf8Text (editor s))\<rparr>,
       trace := trace s @ [GetSaveFileName p, OpenForWriting p (editor s)],
       current_file_path := Some p,
       windowTitle := p @ py '' - '' @ window_title (config s)\<rparr>"
proof -
  let ?s = "emit (GetSaveFileName p) s"
  have w: "write_text (fs ?s) p (editor ?s) =
      (None, (fs s)\<lparr>files := (files (fs s))(p \<mapsto> Utf8Text (editor s))\<rparr>)"
    using write_text_ok [OF assms] by (simp add: emit_def)
  then have "fst (write_text (fs ?s) p (editor ?s)) = None" by simp
  from save_logic_ok [OF this] show ?thesis
    using w assms(2) by (simp add: save_file_as_chosen emit_def)
qed

lemma open_file_editor:
  "editor (open_file convert s p) =
     (if p = [] then editor s
      else case read_text (fs s) p of Inl e \<Rightarrow> editor s | Inr t \<Rightarrow> t)"
  by (simp add: open_file_def emit_def Let_def setPlainText_eq update_window_title_def
      split: sum.splits)

lemma placeholder_representable: "utf8_representable placeholder"
  by (simp add: utf8_representable_def placeholder_def py_def)

lemma toggle_twice:
  assumes "fragment_stateless convert" and "viewer_invariant convert hf s"
  shows "styleSheet (toggle_dark_mode convert (toggle_dark_mode convert s)) = styleSheet s \<and>
         preview (toggle_dark_mode convert (toggle_dark_mode convert s)) = preview s"
  using assms(2) render_stateless [OF assms(1)]
  by (simp add: toggle_dark_mode_eq viewer_invariant_def active_theme_def)

lemma invariant_one_theme:
  assumes "viewer_invariant convert hf s"
  shows "(active_theme s = dark_theme s) = is_dark_mode s \<and>
         (active_theme s = light_theme s) = (\<not> is_dark_mode s)"
proof -
  have "light_theme s = fst (create_themes hf)" "dark_theme s = snd (create_themes hf)"
    using assms by (simp_all add: viewer_invariant_def prod_eq_iff)
  then have "light_theme s \<noteq> dark_theme s" using themes_differ [of hf] by simp
  then show ?thesis by (auto simp add: active_theme_def)
qed

lemma chrome_css_has_Q: "of_char CHR ''Q'' \<in> set dark_app_stylesheet"
  by (simp add: dark_app_stylesheet_def py_def)

lemma template_has_no_Q:
  "of_char CHR ''Q'' \<notin> set template_shared \<union> set template_between_css \<union>
     set template_body_open \<union> set template_close \<union> set dark_html_css"
  by (simp add: template_shared_def template_between_css_def template_body_open_def
      template_close_def dark_html_css_def py_def)

section \<open>The preview render\<close>

text \<open>
  C2, as stated, fails: the template takes two of the theme's three CSS strings. With
  Pygments missing and the dark theme, the chrome style sheet does not occur in the
  rendered document.
\<close>

theorem render_omits_chrome_css:
  "\<not> sublist (app_stylesheet (snd (create_themes None)))
       (render counting_converter 0 (py ''hello'') (snd (create_themes None)))"
proof
  assume "sublist (app_stylesheet (snd (create_themes None)))
       (render counting_converter 0 (py ''hello'') (snd (create_themes None)))"
  then have "set (app_stylesheet (snd (create_themes None)))
      \<subseteq> set (render counting_converter 0 (py ''hello'') (snd (create_themes None)))"
    by (rule set_mono_sublist)
  then have "(of_char CHR ''Q'' :: nat) \<in> set (render counting_converter 0 (py ''hello'') (snd (create_themes None)))"
    using chrome_css_has_Q by (auto simp add: create_themes_def)
  then show False
    using template_has_no_Q
    by (simp add: render_def styled_html_def counting_converter_def create_themes_def py_def)
qed

text \<open>
  C2, amended. The render puts the shared rules first, then the theme's syntax CSS and
  document CSS, then the converter's fragment in the body, and \<^verbatim>\<open>_update_preview\<close>
  hands this document to the preview. The theme's chrome CSS is no part of the document
  (the render does not depend on it): \<^verbatim>\<open>_apply_theme\<close> sets it as the window's
  style sheet.
\<close>

theorem render_interpolates_two_css:
  "render convert c T theme =
     template_shared @ pygments_css theme @ template_between_css @ html_css theme @
     template_body_open @ fst (convert c T) @ template_close \<and>
   render convert c T (theme\<lparr>app_stylesheet := chrome\<rparr>) = render convert c T theme \<and>
   preview (update_preview convert s) =
     render convert (markdown_converter s) (editor s) (active_theme s) \<and>
   styleSheet (apply_theme convert s) = app_stylesheet (active_theme s)"
  by (simp add: render_def styled_html_def update_preview_eq apply_theme_eq)

section \<open>Themes\<close>

text \<open>
  C5. In every state of a running window, toggling dark mode twice brings back the
  window's style sheet and the preview's HTML (for a converter whose fragments do not
  depend on its state).
\<close>

theorem toggle_twice_restores:
  assumes "fragment_stateless convert" and "reachable convert hf s"
  shows "styleSheet (toggle_dark_mode convert (toggle_dark_mode convert s)) = styleSheet s \<and>
         preview (toggle_dark_mode convert (toggle_dark_mode convert s)) = preview s"
  using toggle_twice [OF assms(1) reachable_invariant [OF assms]] .

text \<open>An instance of C5: the fresh window goes light and dark again.\<close>

theorem toggle_twice_restores_witness:
  "fragment_stateless counting_converter \<and>
   reachable counting_converter None fresh_viewer \<and>
   styleSheet (toggle_dark_mode counting_converter fresh_viewer) = light_app_stylesheet \<and>
   styleSheet (toggle_dark_mode counting_converter (toggle_dark_mode counting_converter fresh_viewer)) =
     dark_app_stylesheet \<and>
   styleSheet (toggle_dark_mode counting_converter (toggle_dark_mode counting_converter fresh_viewer)) =
     styleSheet fresh_viewer \<and>
   preview (toggle_dark_mode counting_converter (toggle_dark_mode counting_converter fresh_viewer)) =
     preview fresh_viewer"
proof -
  have r: "reachable counting_converter None fresh_viewer"
    unfolding fresh_viewer_def by (rule reachable.start)
  have l: "styleSheet (toggle_dark_mode counting_converter fresh_viewer) = light_app_stylesheet"
    by (simp add: toggle_dark_mode_eq fresh_viewer_eq create_themes_def)
  have d: "styleSheet fresh_viewer = dark_app_stylesheet"
    by (simp add: fresh_viewer_eq create_themes_def)
  show ?thesis
    using toggle_twice_restores [OF counting_converter_stateless r] r l d
    by (simp add: counting_converter_stateless)
qed

text \<open>
  C7. The invariant holds when the window starts and every event keeps it (an edit, a
  toggle, Open with its programmatic change of the text, Save, Save As); so in every
  state of a running window the preview is the render of the editor's text with the
  active theme, the window wears the active theme's style sheet, and the active theme is
  exactly one of the light and the dark theme, as the flag says.
\<close>

theorem preview_never_stale:
  assumes "fragment_stateless convert"
  shows "viewer_invariant convert hf (init convert hf c0 cfg fsys) \<and>
         (\<forall>s ev. viewer_invariant convert hf s \<longrightarrow> viewer_invariant convert hf (step convert s ev)) \<and>
         (\<forall>s. reachable convert hf s \<longrightarrow>
            preview s = render convert (markdown_converter s) (editor s) (active_theme s) \<and>
            styleSheet s = app_stylesheet (active_theme s) \<and>
            (active_theme s = dark_theme s) = is_dark_mode s \<and>
            (active_theme s = light_theme s) = (\<not> is_dark_mode s))"
proof (intro conjI allI impI)
  show "viewer_invariant convert hf (init convert hf c0 cfg fsys)"
    using assms by (rule invariant_init)
next
  fix s ev assume "viewer_invariant convert hf s"
  with assms show "viewer_invariant convert hf (step convert s ev)" by (rule invariant_step)
next
  fix s assume "reachable convert hf s"
  with assms have i: "viewer_invariant convert hf s" by (rule reachable_invariant)
  then show "preview s = render convert (markdown_converter s) (editor s) (active_theme s)"
    and "styleSheet s = app_stylesheet (active_theme s)"
    by (simp_all add: viewer_invariant_def)
  from invariant_one_theme [OF i]
  show "(active_theme s = dark_theme s) = is_dark_mode s"
    and "(active_theme s = light_theme s) = (\<not> is_dark_mode s)" by simp_all
qed

text \<open>An instance of C7: the fresh window after a toggle and an edit.\<close>

theorem preview_never_stale_witness:
  "fragment_stateless counting_converter \<and>
   reachable counting_converter None
     (step counting_converter (step counting_converter fresh_viewer DarkModeTriggered) (TextEdited accented)) \<and>
   preview (step counting_converter (step counting_converter fresh_viewer DarkModeTriggered) (TextEdited accented)) =
     styled_html (py ''<p>'' @ accented @ py ''</p>'') (fst (create_themes None)) \<and>
   styleSheet (step counting_converter (step counting_converter fresh_viewer DarkModeTriggered) (TextEdited accented)) =
     light_app_stylesheet"
proof -
  let ?s = "step counting_converter (step counting_converter fresh_viewer DarkModeTriggered) (TextEdited accented)"
  have r: "reachable counting_converter None ?s"
    unfolding fresh_viewer_def by (intro reachable.event reachable.start)
  have "preview ?s = render counting_converter (markdown_converter ?s) (editor ?s) (active_theme ?s) \<and>
      styleSheet ?s = app_stylesheet (active_theme ?s)"
    using preview_never_stale [OF counting_converter_stateless, of None] r by blast
  moreover have "editor ?s = accented" "active_theme ?s = fst (create_themes None)"
    by (simp_all add: update_preview_eq toggle_dark_mode_eq fresh_viewer_eq active_theme_def)
  ultimately show ?thesis
    using r by (simp add: counting_converter_stateless render_def counting_converter_def create_themes_def)
qed

section \<open>Saving\<close>

text \<open>
  C3. Save As with a chosen path writes first: when the write raises, the current path
  and the window title keep their values and an error box is shown; when it does not,
  the current path becomes the chosen path and the title is built from it. The same
  holds of the save logic by itself.
\<close>

theorem save_file_as_write_first:
  assumes "file_path \<noteq> []"
  shows "(case fst (write_text (fs s) file_path (editor s)) of
            Some e \<Rightarrow>
              current_file_path (save_file_as s file_path) = current_file_path s \<and>
              windowTitle (save_file_as s file_path) = windowTitle s \<and>
              trace (save_file_as s file_path) =
                trace s @ [GetSaveFileName file_path, OpenForWriting file_path (editor s),
                  MessageBoxCritical (py ''Error'') (py ''Could not save file: '') e]
          | None \<Rightarrow>
              current_file_path (save_file_as s file_path) = Some file_path \<and>
              windowTitle (save_file_as s file_path) =
                file_path @ py '' - '' @ window_title (config s) \<and>
              trace (save_file_as s file_path) =
                trace s @ [GetSaveFileName file_path, OpenForWriting file_path (editor s)]) \<and>
         (case fst (write_text (fs s) file_path (editor s)) of
            Some e \<Rightarrow>
              current_file_path (save_logic s file_path) = current_file_path s \<and>
              windowTitle (save_logic s file_path) = windowTitle s
          | None \<Rightarrow>
              current_file_path (save_logic s file_path) = Some file_path \<and>
              windowTitle (save_logic s file_path) =
                file_path @ py '' - '' @ window_title (config s))"
proof (cases "fst (write_text (fs s) file_path (editor s))")
  case None
  then have "fst (write_text (fs (emit (GetSaveFileName file_path) s)) file_path
      (editor (emit (GetSaveFileName file_path) s))) = None"
    by (simp add: emit_def)
  from save_logic_ok [OF this] save_logic_ok [OF None] show ?thesis
    using assms None by (simp add: save_file_as_chosen emit_def)
next
  case (Some e)
  then have "fst (write_text (fs (emit (GetSaveFileName file_path) s)) file_path
      (editor (emit (GetSaveFileName file_path) s))) = Some e"
    by (simp add: emit_def)
  from save_logic_raises [OF this] save_logic_raises [OF Some] show ?thesis
    using assms Some by (simp add: save_file_as_chosen emit_def)
qed

text \<open>
  Instances of C3: a path that cannot be written leaves the fresh window without a
  current path and with its configured title; a path that can be written becomes the
  current path.
\<close>

theorem save_file_as_write_first_witness:
  "py ''/etc/notes.md'' \<noteq> [] \<and>
   fst (write_text (fs (fresh_viewer\<lparr>fs := locked_disk\<rparr>)) (py ''/etc/notes.md'')
          (editor (fresh_viewer\<lparr>fs := locked_disk\<rparr>))) = Some PermissionError \<and>
   current_file_path (save_file_as (fresh_viewer\<lparr>fs := locked_disk\<rparr>) (py ''/etc/notes.md'')) = None \<and>
   windowTitle (save_file_as (fresh_viewer\<lparr>fs := locked_disk\<rparr>) (py ''/etc/notes.md'')) =
     py ''Joe's Markdown Viewer'' \<and>
   py ''notes.md'' \<noteq> [] \<and>
   fst (write_text (fs fresh_viewer) (py ''notes.md'') (editor fresh_viewer)) = None \<and>
   current_file_path (save_file_as fresh_viewer (py ''notes.md'')) = Some (py ''notes.md'') \<and>
   windowTitle (save_file_as fresh_viewer (py ''notes.md'')) =
     py ''notes.md - Joe's Markdown Viewer''"
proof -
  have p: "py ''/etc/notes.md'' \<noteq> []" by (simp add: py_def)
  have w: "fst (write_text (fs (fresh_viewer\<lparr>fs := locked_disk\<rparr>)) (py ''/etc/notes.md'')
          (editor (fresh_viewer\<lparr>fs := locked_disk\<rparr>))) = Some PermissionError"
    by (simp add: write_text_def locked_disk_def p)
  have refused:
    "current_file_path (save_file_as (fresh_viewer\<lparr>fs := locked_disk\<rparr>) (py ''/etc/notes.md'')) = None \<and>
     windowTitle (save_file_as (fresh_viewer\<lparr>fs := locked_disk\<rparr>) (py ''/etc/notes.md'')) =
       py ''Joe's Markdown Viewer''"
    using save_file_as_write_first [OF p, of "fresh_viewer\<lparr>fs := locked_disk\<rparr>"] w
    by (simp add: fresh_viewer_eq AppConfig_defaults_def)
  have q: "py ''notes.md'' \<noteq> []" by (simp add: py_def)
  have "utf8_representable (editor fresh_viewer)"
    using placeholder_representable by (simp add: fresh_viewer_eq)
  moreover have "write_fault (fs fresh_viewer) (py ''notes.md'') = None"
    by (simp add: fresh_viewer_eq empty_disk_def)
  ultimately have v: "fst (write_text (fs fresh_viewer) (py ''notes.md'') (editor fresh_viewer)) = None"
    using q by (simp add: write_text_ok)
  have c: "config fresh_viewer = AppConfig_defaults" by (simp add: fresh_viewer_eq)
  have written:
    "current_file_path (save_file_as fresh_viewer (py ''notes.md'')) = Some (py ''notes.md'') \<and>
     windowTitle (save_file_as fresh_viewer (py ''notes.md'')) =
       py ''notes.md - Joe's Markdown Viewer''"
    using save_file_as_write_first [OF q, of fresh_viewer] v
    by (simp add: c AppConfig_defaults_def py_def)
  from p w refused q v written show ?thesis by blast
qed

text \<open>
  C8. With a current path set, Save is the save logic on that path, whatever a dialog
  would have returned: no dialog is shown, the editor's text is written to the path, and
  an error box follows only when the write raises. With no current path, Save is Save
  As.
\<close>

theorem save_file_uses_current_path:
  "(\<forall>p. current_file_path s = Some p \<and> p \<noteq> [] \<longrightarrow>
      save_file s dialog_path = save_logic s p \<and>
      trace (save_file s dialog_path) =
        trace s @ OpenForWriting p (editor s) #
          (case fst (write_text (fs s) p (editor s)) of
             None \<Rightarrow> []
           | Some e \<Rightarrow> [MessageBoxCritical (py ''Error'') (py ''Could not save file: '') e]) \<and>
      (fst (write_text (fs s) p (editor s)) = None \<longrightarrow>
         files (fs (save_file s dialog_path)) p = Some (Utf8Text (editor s)))) \<and>
   (current_file_path s = None \<longrightarrow> save_file s dialog_path = save_file_as s dialog_path)"
proof (intro conjI allI impI)
  fix p assume a: "current_file_path s = Some p \<and> p \<noteq> []"
  then show eq: "save_file s dialog_path = save_logic s p" by (simp add: save_file_def)
  show "trace (save_file s dialog_path) =
        trace s @ OpenForWriting p (editor s) #
          (case fst (write_text (fs s) p (editor s)) of
             None \<Rightarrow> []
           | Some e \<Rightarrow> [MessageBoxCritical (py ''Error'') (py ''Could not save file: '') e])"
  proof (cases "fst (write_text (fs s) p (editor s))")
    case None
    from save_logic_ok [OF this] show ?thesis using None by (simp add: eq)
  next
    case (Some e)
    from save_logic_raises [OF this] show ?thesis using Some by (simp add: eq)
  qed
  assume w: "fst (write_text (fs s) p (editor s)) = None"
  from save_logic_ok [OF w] write_text_None_stores [OF w]
  show "files (fs (save_file s dialog_path)) p = Some (Utf8Text (editor s))" by (simp add: eq)
next
  assume "current_file_path s = None"
  then show "save_file s dialog_path = save_file_as s dialog_path" by (simp add: save_file_def)
qed

text \<open>
  Instances of C8: after Save As to a path, Save writes to that path without a dialog;
  in the fresh window Save is Save As.
\<close>

theorem save_file_uses_current_path_witness:
  "current_file_path (save_file_as fresh_viewer (py ''notes.md'')) = Some (py ''notes.md'') \<and>
   py ''notes.md'' \<noteq> [] \<and>
   save_file (save_file_as fresh_viewer (py ''notes.md'')) (py ''other.md'') =
     save_logic (save_file_as fresh_viewer (py ''notes.md'')) (py ''notes.md'') \<and>
   trace (save_file (save_file_as fresh_viewer (py ''notes.md'')) (py ''other.md'')) =
     [GetSaveFileName (py ''notes.md''), OpenForWriting (py ''notes.md'') placeholder,
      OpenForWriting (py ''notes.md'') placeholder] \<and>
   current_file_path fresh_viewer = None \<and>
   save_file fresh_viewer (py ''notes.md'') = save_file_as fresh_viewer (py ''notes.md'')"
proof -
  let ?s = "save_file_as fresh_viewer (py ''notes.md'')"
  have p: "py ''notes.md'' \<noteq> []" by (simp add: py_def)
  have u: "utf8_representable (editor fresh_viewer)"
    using placeholder_representable by (simp add: fresh_viewer_eq)
  have wf: "write_fault (fs fresh_viewer) (py ''notes.md'') = None"
    by (simp add: fresh_viewer_eq empty_disk_def)
  note s = save_file_as_ok [OF u p wf]
  have c: "current_file_path ?s = Some (py ''notes.md'')" by (simp add: s)
  have n: "current_file_path fresh_viewer = None" by (simp add: fresh_viewer_eq)
  have f: "editor fresh_viewer = placeholder" "trace fresh_viewer = []"
    by (simp_all add: fresh_viewer_eq)
  have e: "editor ?s = placeholder"
    "trace ?s = [GetSaveFileName (py ''notes.md''), OpenForWriting (py ''notes.md'') placeholder]"
    by (simp_all add: s f)
  have "write_fault (fs ?s) (py ''notes.md'') = None"
    by (simp add: s wf)
  with placeholder_representable p
  have w: "fst (write_text (fs ?s) (py ''notes.md'') (editor ?s)) = None"
    by (simp add: write_text_ok e)
  from save_file_uses_current_path [of ?s "py ''other.md''"] c p
  have a: "save_file ?s (py ''other.md'') = save_logic ?s (py ''notes.md'')"
    and t: "trace (save_file ?s (py ''other.md'')) =
        trace ?s @ OpenForWriting (py ''notes.md'') (editor ?s) #
          (case fst (write_text (fs ?s) (py ''notes.md'') (editor ?s)) of
             None \<Rightarrow> []
           | Some e \<Rightarrow> [MessageBoxCritical (py ''Error'') (py ''Could not save file: '') e])"
    by blast+
  from t w e have b: "trace (save_file ?s (py ''other.md'')) =
     [GetSaveFileName (py ''notes.md''), OpenForWriting (py ''notes.md'') placeholder,
      OpenForWriting (py ''notes.md'') placeholder]"
    by simp
  from save_file_uses_current_path [of fresh_viewer "py ''notes.md''"] n
  have d: "save_file fresh_viewer (py ''notes.md'') = save_file_as fresh_viewer (py ''notes.md'')"
    by blast
  from c p a b n d show ?thesis by blast
qed

section \<open>Opening\<close>

text \<open>
  C4. When reading the chosen path raises, \<^verbatim>\<open>_open_file\<close> returns with the state
  it found, the current path and the editor's text included; all that happened is the
  dialog, the attempt to read and the error box with the exception.
\<close>

theorem open_file_error_keeps_state:
  assumes "file_path \<noteq> []" and "read_text (fs s) file_path = Inl e"
  shows "open_file convert s file_path =
           s\<lparr>trace := trace s @ [GetOpenFileName file_path, OpenForReading file_path,
                MessageBoxCritical (py ''Error'') (py ''Could not open file: '') e]\<rparr>"
  using assms by (simp add: open_file_def emit_def Let_def)

text \<open>An instance of C4: a path with no file, in the fresh window.\<close>

theorem open_file_error_keeps_state_witness:
  "py ''missing.md'' \<noteq> [] \<and>
   read_text (fs fresh_viewer) (py ''missing.md'') = Inl FileNotFoundError \<and>
   open_file counting_converter fresh_viewer (py ''missing.md'') =
     fresh_viewer\<lparr>trace := [GetOpenFileName (py ''missing.md''), OpenForReading (py ''missing.md''),
       MessageBoxCritical (py ''Error'') (py ''Could not open file: '') FileNotFoundError]\<rparr> \<and>
   current_file_path (open_file counting_converter fresh_viewer (py ''missing.md'')) = None \<and>
   editor (open_file counting_converter fresh_viewer (py ''missing.md'')) = placeholder"
proof -
  have p: "py ''missing.md'' \<noteq> []" by (simp add: py_def)
  have r: "read_text (fs fresh_viewer) (py ''missing.md'') = Inl FileNotFoundError"
    by (simp add: read_text_def fresh_viewer_eq empty_disk_def p)
  have t: "trace fresh_viewer = []" by (simp add: fresh_viewer_eq)
  show ?thesis
    using open_file_error_keeps_state [OF p r, of counting_converter] p r t
    by (simp add: fresh_viewer_eq)
qed



text \<open>
  The condition on the text is needed: a lone surrogate makes the write raise after the
  file was truncated, and Open then loads the empty file.
\<close>

lemma roundtrip_needs_utf8:
  "editor (open_file counting_converter
      (save_file_as (step counting_converter fresh_viewer (TextEdited [0xD800])) (py ''notes.md''))
      (py ''notes.md'')) = []"
proof -
  let ?s = "step counting_converter fresh_viewer (TextEdited [0xD800])"
  have p: "py ''notes.md'' \<noteq> []" by (simp add: py_def)
  have d: "fs ?s = empty_disk" and e: "editor ?s = [0xD800]"
    by (simp_all add: update_preview_eq fresh_viewer_eq)
  have "write_text empty_disk (py ''notes.md'') [0xD800] =
        (Some UnicodeEncodeError, empty_disk\<lparr>files := [py ''notes.md'' \<mapsto> Utf8Text []]\<rparr>)"
    using p by (simp add: write_text_def utf8_representable_def empty_disk_def)
  then have "write_text (fs (emit (GetSaveFileName (py ''notes.md'')) ?s)) (py ''notes.md'')
          (editor (emit (GetSaveFileName (py ''notes.md'')) ?s)) =
        (Some UnicodeEncodeError, empty_disk\<lparr>files := [py ''notes.md'' \<mapsto> Utf8Text []]\<rparr>)"
    using d e by (simp add: emit_def)
  then have "fs (save_file_as ?s (py ''notes.md'')) = empty_disk\<lparr>files := [py ''notes.md'' \<mapsto> Utf8Text []]\<rparr>"
    using p by (simp add: save_file_as_chosen save_logic_def emit_def)
  then have "read_text (fs (save_file_as ?s (py ''notes.md''))) (py ''notes.md'') = Inr []"
    using p by (simp add: read_text_def empty_disk_def)
  then show ?thesis using p by (simp add: open_file_editor)
qed

text \<open>
  C10. A cancelled dialog (the empty path) leaves the whole state as it was, in Open and
  in Save As: the dialog is all that happened, and no file was opened.
\<close>

theorem cancelled_dialog_is_noop:
  "open_file convert s [] = s\<lparr>trace := trace s @ [GetOpenFileName []]\<rparr> \<and>
   save_file_as s [] = s\<lparr>trace := trace s @ [GetSaveFileName []]\<rparr>"
  by (simp add: open_file_def save_file_as_def emit_def Let_def)

section \<open>Window title\<close>

text \<open>
  C9. \<^verbatim>\<open>_update_window_title\<close> sets the title to the current path, \<open>" - "\<close> and the
  configured title when a path is set, and to the configured title alone when none is.
  It changes nothing else.
\<close>

theorem update_window_title_sets_title:
  "update_window_title s =
     s\<lparr>windowTitle :=
         (case current_file_path s of
            None \<Rightarrow> window_title (config s)
          | Some p \<Rightarrow>
              if p = [] then window_title (config s)
              else p @ py '' - '' @ window_title (config s))\<rparr>"
  by (simp add: update_window_title_def split: option.splits)

end
